theory Spec2Isabelle
  imports Main "HOL-Library.Word"
begin

section \<open>Strings: the functions of Go's \<open>strings\<close> package that the code calls\<close>

text \<open>
  A Go string is a sequence of bytes; it is modelled as a \<open>string\<close> (a list of 8-bit
  characters). \<open>strings.TrimSpace\<close> and \<open>strings.Fields\<close> treat as white space the six
  ASCII characters tab, line feed, vertical tab, form feed, carriage return and space.
  (The Unicode spaces beyond ASCII, which are several bytes long in UTF-8, are not
  modelled: such bytes count as ordinary characters here.)
\<close>

definition isSpace :: "char \<Rightarrow> bool" where
  "isSpace c \<longleftrightarrow>
     c = CHR 0x09 \<or> c = CHR 0x0A \<or> c = CHR 0x0B \<or> c = CHR 0x0C \<or> c = CHR 0x0D \<or> c = CHR '' ''"

definition TrimSpace :: "string \<Rightarrow> string" where
  "TrimSpace s = rev (dropWhile isSpace (rev (dropWhile isSpace s)))"

text \<open>
  \<open>strings.Fields\<close>: the maximal runs of characters that are not white space, in order.
  The first argument is the field being read.
\<close>

fun Fields_from :: "string \<Rightarrow> string \<Rightarrow> string list" where
  "Fields_from w [] = (if w = [] then [] else [w])"
| "Fields_from w (c # cs) =
     (if isSpace c then (if w = [] then Fields_from [] cs else w # Fields_from [] cs)
      else Fields_from (w @ [c]) cs)"

definition Fields :: "string \<Rightarrow> string list" where
  "Fields s = Fields_from [] s"

definition HasPrefix :: "string \<Rightarrow> string \<Rightarrow> bool" where
  "HasPrefix s p \<longleftrightarrow> take (length p) s = p"

definition TrimPrefix :: "string \<Rightarrow> string \<Rightarrow> string" where
  "TrimPrefix s p = (if HasPrefix s p then drop (length p) s else s)"

section \<open>Errors\<close>

text \<open>
  Every error value the code builds or passes on. \<open>ErrNoGoModule\<close> is the package's own
  error; \<open>ErrObjectNotFound\<close> is \<open>plumbing.ErrObjectNotFound\<close>;
  \<open>ExpectedTwoFields n line\<close> is
  \<open>fmt.Errorf("expected two fields per line, but got %d: %s", n, line)\<close>;
  \<open>Wrapped msg e\<close> is \<open>fmt.Errorf(msg + ": %w", e)\<close>; \<open>External msg\<close> is any error
  of a library or of the go command; \<open>EOF\<close> is \<open>io.EOF\<close>;
  \<open>PanicIndexOutOfRange i n\<close> is the run-time panic of an index \<open>i\<close> into a slice of
  length \<open>n\<close>, which is no returned error at all but the end of the program.
\<close>

datatype error =
    ErrNoGoModule
  | ErrObjectNotFound
  | ExpectedTwoFields nat string
  | Wrapped string error
  | External string
  | EOF
  | PanicIndexOutOfRange nat nat

text \<open>\<open>errors.Is\<close>: the target is found along the chain of wrapped errors.\<close>

fun errors_Is :: "error \<Rightarrow> error \<Rightarrow> bool" where
  "errors_Is (Wrapped msg e) target = (Wrapped msg e = target \<or> errors_Is e target)"
| "errors_Is e target = (e = target)"

fun isPanic :: "error \<Rightarrow> bool" where
  "isPanic (PanicIndexOutOfRange i n) = True"
| "isPanic e = False"

section \<open>The module record\<close>

text \<open>
  \<open>Dependencies\<close> is a slice of pointers to modules. Every pointer that the code stores
  there comes from \<open>findModule\<close>, which returns either the address of an element of the
  module slice or the \<open>Replace\<close> pointer of one: \<open>ModuleAt i\<close> is \<open>&modules[i]\<close> and
  \<open>ReplaceOf i\<close> is \<open>modules[i].Replace\<close>. A nil slice is the empty list.
\<close>

datatype modref = ModuleAt nat | ReplaceOf nat

datatype Module = Module
  (Dir: string)
  (Main: bool)
  (Path: string)
  (Replace: "Module option")
  (Version: string)
  (Dependencies: "modref list")
  (Vendored: bool)

definition Coordinates :: "Module \<Rightarrow> string" where
  "Coordinates m = (if Version m = [] then Path m else Path m @ ''@'' @ Version m)"

definition PackageURL :: "Module \<Rightarrow> string" where
  "PackageURL m = ''pkg:golang/'' @ Coordinates m"

section \<open>Graph assembly\<close>

text \<open>\<open>findModule\<close>: the loop over the indices, from index \<open>i\<close> on.\<close>

fun findModule_from :: "nat \<Rightarrow> Module list \<Rightarrow> string \<Rightarrow> modref option" where
  "findModule_from i [] coordinates = None"
| "findModule_from i (m # ms) coordinates =
     (if coordinates = Coordinates m
      then (if Replace m \<noteq> None then Some (ReplaceOf i) else Some (ModuleAt i))
      else findModule_from (Suc i) ms coordinates)"

definition findModule :: "Module list \<Rightarrow> string \<Rightarrow> modref option" where
  "findModule modules coordinates = findModule_from 0 modules coordinates"

text \<open>Reading through a pointer.\<close>

fun deref :: "Module list \<Rightarrow> modref \<Rightarrow> Module option" where
  "deref modules (ModuleAt i) = (if i < length modules then Some (modules ! i) else None)"
| "deref modules (ReplaceOf i) = (if i < length modules then Replace (modules ! i) else None)"

text \<open>
  The assignment to \<open>dependant.Dependencies\<close>: a first edge makes a one-element slice,
  a later one is appended.
\<close>

definition appendDependency :: "modref \<Rightarrow> Module \<Rightarrow> Module" where
  "appendDependency dependency m =
     (case m of Module d mn p r v deps vd \<Rightarrow>
        Module d mn p r v (if deps = [] then [dependency] else deps @ [dependency]) vd)"

text \<open>The same assignment, made through the pointer \<open>dependant\<close> into the module slice.\<close>

fun addDependency :: "modref \<Rightarrow> modref \<Rightarrow> Module list \<Rightarrow> Module list" where
  "addDependency (ModuleAt i) dependency modules =
     modules[i := appendDependency dependency (modules ! i)]"
| "addDependency (ReplaceOf i) dependency modules =
     modules[i := (case modules ! i of Module d mn p r v deps vd \<Rightarrow>
        Module d mn p (map_option (appendDependency dependency) r) v deps vd)]"

text \<open>
  \<open>parseModuleGraph\<close>. The reader is the list of lines that the scanner yields. The Go
  function changes the modules in place and returns the error only; the model returns
  the changed modules when there is no error.
\<close>

fun parseModuleGraph :: "string list \<Rightarrow> Module list \<Rightarrow> error + Module list" where
  "parseModuleGraph [] modules = Inr modules"
| "parseModuleGraph (raw # rest) modules =
     (let line = TrimSpace raw in
      if line = [] then parseModuleGraph rest modules
      else
        let fields = Fields line in
        if length fields \<noteq> 2 then Inl (ExpectedTwoFields (length fields) line)
        else
          (case findModule modules (fields ! 0) of
             None \<Rightarrow> parseModuleGraph rest modules
           | Some dependant \<Rightarrow>
               (case findModule modules (fields ! 1) of
                  None \<Rightarrow> parseModuleGraph rest modules
                | Some dependency \<Rightarrow>
                    parseModuleGraph rest (addDependency dependant dependency modules))))"

text \<open>
  What \<open>findModule\<close> reads of a module: its coordinates, and whether it is replaced.
\<close>

definition lookupKey :: "Module \<Rightarrow> string \<times> bool" where
  "lookupKey m = (Coordinates m, Replace m \<noteq> None)"

text \<open>
  A module list for the examples: the main module, a module replaced by a fork, and a
  plain dependency.
\<close>

definition exampleModules :: "Module list" where
  "exampleModules =
     [Module ''/proj'' True ''example.com/main'' None '''' [] False,
      Module ''/cache/foo'' False ''github.com/foo/bar''
        (Some (Module ''/cache/fork'' False ''github.com/fork/bar'' None ''v1.3.0'' [] False))
        ''v1.2.3'' [] False,
      Module ''/cache/baz'' False ''github.com/baz/qux'' None ''v0.1.0'' [] False]"

section \<open>File paths: \<open>filepath.Join\<close> and \<open>filepath.IsAbs\<close> on Unix\<close>

text \<open>The elements of a path between its separators, the empty ones included.\<close>

fun splitPath_from :: "string \<Rightarrow> string \<Rightarrow> string list" where
  "splitPath_from w [] = [w]"
| "splitPath_from w (c # cs) =
     (if c = CHR ''/'' then w # splitPath_from [] cs else splitPath_from (w @ [c]) cs)"

fun joinWith :: "string \<Rightarrow> string list \<Rightarrow> string" where
  "joinWith sep [] = []"
| "joinWith sep [x] = x"
| "joinWith sep (x # y # ys) = x @ sep @ joinWith sep (y # ys)"

text \<open>
  One element of the path read by \<open>filepath.Clean\<close>, with the elements kept so far: an
  empty element and \<open>.\<close> are dropped; \<open>..\<close> removes the last element kept when that is
  a real one, is kept itself in a path that is not rooted, and is dropped at the root.
\<close>

definition cleanStep :: "bool \<Rightarrow> string list \<Rightarrow> string \<Rightarrow> string list" where
  "cleanStep rooted kept e =
     (if e = [] \<or> e = ''.'' then kept
      else if e = ''..'' then
        (if kept \<noteq> [] \<and> last kept \<noteq> ''..'' then butlast kept
         else if \<not> rooted then kept @ [''..'']
         else kept)
      else kept @ [e])"

definition filepath_Clean :: "string \<Rightarrow> string" where
  "filepath_Clean p =
     (let rooted = (p \<noteq> [] \<and> hd p = CHR ''/'');
          kept = foldl (cleanStep rooted) [] (splitPath_from [] p);
          out = (if rooted then ''/'' else []) @ joinWith ''/'' kept
      in if out = [] then ''.'' else out)"

text \<open>
  \<open>filepath.Join\<close>: the elements from the first non-empty one on, joined by the
  separator and cleaned; the empty string when every element is empty.
\<close>

definition filepath_Join :: "string list \<Rightarrow> string" where
  "filepath_Join elem =
     (case dropWhile (\<lambda>e. e = []) elem of
        [] \<Rightarrow> []
      | e # es \<Rightarrow> filepath_Clean (joinWith ''/'' (e # es)))"

definition filepath_IsAbs :: "string \<Rightarrow> bool" where
  "filepath_IsAbs p \<longleftrightarrow> HasPrefix p ''/''"

section \<open>The vendor manifest\<close>

text \<open>
  Modelled from the spec: \<open>util.StringSliceIndex\<close> is called by \<open>parseVendoredModules\<close>
  and is not among the source files. The spec says that the arrow token separates the
  original from the replacement, and the code compares the result with \<open>-1\<close>: the
  function gives the index of the first element equal to the needle, and \<open>-1\<close> when
  there is none.
\<close>

fun StringSliceIndex_from :: "nat \<Rightarrow> string list \<Rightarrow> string \<Rightarrow> int" where
  "StringSliceIndex_from i [] needle = - 1"
| "StringSliceIndex_from i (x # xs) needle =
     (if x = needle then int i else StringSliceIndex_from (Suc i) xs needle)"

definition StringSliceIndex :: "string list \<Rightarrow> string \<Rightarrow> int" where
  "StringSliceIndex haystack needle = StringSliceIndex_from 0 haystack needle"

text \<open>An index expression \<open>fields[i]\<close>: out of range it panics.\<close>

definition index :: "string list \<Rightarrow> int \<Rightarrow> error + string" where
  "index fields i =
     (if 0 \<le> i \<and> i < int (length fields) then Inr (fields ! nat i)
      else Inl (PanicIndexOutOfRange (nat i) (length fields)))"

text \<open>
  \<open>parseVendoredModules\<close>: the loop over the lines of the manifest, with the module
  slice built so far. Fields that a composite literal leaves out have their zero values.
\<close>

fun parseVendoredModules_loop :: "string \<Rightarrow> string list \<Rightarrow> Module list \<Rightarrow> error + Module list" where
  "parseVendoredModules_loop path [] modules = Inr modules"
| "parseVendoredModules_loop path (raw # rest) modules =
     (let line = TrimSpace raw in
      if \<not> HasPrefix line ''# '' then parseVendoredModules_loop path rest modules
      else
        let fields = Fields (TrimPrefix line ''# '');
            arrowIndex = StringSliceIndex fields ''=>'' in
        if arrowIndex = - 1 then
          (if length fields \<noteq> 2 then Inl (ExpectedTwoFields (length fields) line)
           else parseVendoredModules_loop path rest (modules @
             [Module (filepath_Join [path, ''vendor'', fields ! 0]) False (fields ! 0) None
                (fields ! 1) [] True]))
        else
          (case index fields 0 of Inl e \<Rightarrow> Inl e | Inr pathParent \<Rightarrow>
          (case (if arrowIndex = 2 then index fields 1 else Inr [])
             of Inl e \<Rightarrow> Inl e | Inr versionParent \<Rightarrow>
          (case index fields (arrowIndex + 1) of Inl e \<Rightarrow> Inl e | Inr pathReplacement \<Rightarrow>
          (case (if int (length fields) = arrowIndex + 3 then index fields (arrowIndex + 2)
                 else Inr [])
             of Inl e \<Rightarrow> Inl e | Inr versionReplacement \<Rightarrow>
             parseVendoredModules_loop path rest (modules @
               [Module [] False pathParent
                  (Some (Module (filepath_Join [path, ''vendor'', pathParent]) False
                     pathReplacement None versionReplacement [] True))
                  versionParent [] False]))))))"

definition parseVendoredModules :: "string \<Rightarrow> string list \<Rightarrow> error + Module list" where
  "parseVendoredModules path lines = parseVendoredModules_loop path lines []"

section \<open>What the code reads of the world\<close>

text \<open>
  A commit hash is \<open>plumbing.Hash\<close>, an array of 20 bytes: a word of 160 bits, whose
  \<open>String\<close> is its 40 hexadecimal digits in lower case.
\<close>

definition hexDigit :: "nat \<Rightarrow> char" where
  "hexDigit d = ''0123456789abcdef'' ! d"

fun hexEncode :: "nat \<Rightarrow> nat \<Rightarrow> string" where
  "hexEncode 0 v = []"
| "hexEncode (Suc n) v = hexEncode n (v div 16) @ [hexDigit (v mod 16)]"

definition Hash_String :: "160 word \<Rightarrow> string" where
  "Hash_String h = hexEncode 40 (unat h)"

text \<open>
  A \<open>time.Time\<close>, as the calendar date and the clock that \<open>Format\<close> reads of it, in
  the time's own location.
\<close>

datatype Time = Time
  (Year: int) (Month: nat) (Day: nat) (Hour: nat) (Minute: nat) (Second: nat)

definition decimalDigit :: "nat \<Rightarrow> char" where
  "decimalDigit d = ''0123456789'' ! d"

fun decimal :: "nat \<Rightarrow> string" where
  "decimal n = (if n < 10 then [decimalDigit n] else decimal (n div 10) @ [decimalDigit (n mod 10)])"

text \<open>
  \<open>appendInt\<close> of package \<open>time\<close>: a minus sign for a negative number, then its decimal
  digits, padded with zeros on the left to the width.
\<close>

definition appendInt :: "int \<Rightarrow> nat \<Rightarrow> string" where
  "appendInt x width =
     (let ds = decimal (nat \<bar>x\<bar>) in
      (if x < 0 then ''-'' else []) @ replicate (width - length ds) (CHR ''0'') @ ds)"

text \<open>\<open>Format("20060102150405")\<close>: year, month, day, hour, minute and second.\<close>

definition Format_20060102150405 :: "Time \<Rightarrow> string" where
  "Format_20060102150405 t =
     appendInt (Year t) 4 @ appendInt (int (Month t)) 2 @ appendInt (int (Day t)) 2 @
     appendInt (int (Hour t)) 2 @ appendInt (int (Minute t)) 2 @ appendInt (int (Second t)) 2"


datatype Reference = Reference (ref_Name: string) (ref_Hash: "160 word")

datatype Commit = Commit (commit_Hash: "160 word") (Author_When: Time)

text \<open>
  A repository opened by go-git: its head, its tags as the iterator yields them (a
  reference, or the error at which the iteration ends) and its commit objects.
\<close>

record Repository =
  Head :: "error + Reference"
  Tags :: "error + (error + Reference) list"
  CommitObject :: "160 word \<Rightarrow> error + Commit"

text \<open>
  The output of the go command when it prints modules as JSON: the outcome of each
  \<open>Decode\<close> in turn, a module or the error of a malformed record. At the end of the
  list \<open>Decode\<close> returns \<open>io.EOF\<close>.
\<close>

type_synonym jsonStream = "(error + Module) list"

text \<open>A line written by \<open>log.Printf\<close>: the module path and the error of the message.\<close>

datatype logEntry = FailedToResolveVersion string error

text \<open>
  Modelled from the spec: the packages \<open>util\<close> and \<open>gocmd\<close> of the repository are not
  among the source files, and what they return depends on the file system and on the
  go command. Their functions are parameters of the model, with the libraries that read
  the disk (\<open>git.PlainOpen\<close>, \<open>dirhash.HashDir\<close> with \<open>dirhash.Hash1\<close>): a valid module root
  (\<open>util.IsGoModule\<close>), a project that vendors (\<open>util.IsVendoring\<close>), the root of the
  shared module cache (\<open>util.GetModuleCacheDir\<close>), and the output that each call of the
  go command writes to the buffer.
\<close>

record env =
  IsGoModule :: "string \<Rightarrow> bool"
  IsVendoring :: "string \<Rightarrow> bool"
  GetModuleCacheDir :: string
  ListModules :: "string \<Rightarrow> error + jsonStream"
  ListVendoredModules :: "string \<Rightarrow> error + string list"
  GetModule :: "string \<Rightarrow> error + jsonStream"
  GetModuleGraph :: "string \<Rightarrow> error + string list"
  PlainOpen :: "string \<Rightarrow> error + Repository"
  HashDir :: "string \<Rightarrow> string \<Rightarrow> error + string"

section \<open>Version resolution\<close>

text \<open>
  Modelled from the spec: \<open>util.StartsWith\<close> is not among the source files. The spec
  says that the tag's name begins with the prefix: the function tells whether the string
  starts with the given one.
\<close>

definition StartsWith :: "string \<Rightarrow> string \<Rightarrow> bool" where
  "StartsWith str prefix \<longleftrightarrow> take (length prefix) str = prefix"

text \<open>
  \<open>tags.ForEach\<close> with the callback of \<open>GetVersionFromTag\<close>: the iteration ends at
  the first tag of the head's hash whose name starts with \<open>refs/tags/v\<close> (the callback
  returns \<open>storer.ErrStop\<close>, which \<open>ForEach\<close> turns into no error), or at an error of
  the iterator.
\<close>

fun tags_ForEach :: "(error + Reference) list \<Rightarrow> 160 word \<Rightarrow> string \<Rightarrow> error + string" where
  "tags_ForEach [] headHash tagName = Inr tagName"
| "tags_ForEach (Inl err # rest) headHash tagName = Inl err"
| "tags_ForEach (Inr reference # rest) headHash tagName =
     (if ref_Hash reference = headHash \<and> StartsWith (ref_Name reference) ''refs/tags/v''
      then Inr (TrimPrefix (ref_Name reference) ''refs/tags/'')
      else tags_ForEach rest headHash tagName)"

definition GetVersionFromTag :: "env \<Rightarrow> string \<Rightarrow> error + string" where
  "GetVersionFromTag world modulePath =
     (case PlainOpen world modulePath of Inl err \<Rightarrow> Inl err | Inr repo \<Rightarrow>
     (case Head repo of Inl err \<Rightarrow> Inl err | Inr headRef \<Rightarrow>
     (case Tags repo of Inl err \<Rightarrow> Inl err | Inr tags \<Rightarrow>
     (case tags_ForEach tags (ref_Hash headRef) [] of Inl err \<Rightarrow> Inl err | Inr tagName \<Rightarrow>
        if tagName = [] then Inl ErrObjectNotFound else Inr tagName))))"

text \<open>
  \<open>GetPseudoVersion\<close>. The string of a hash has 40 characters, so the slice \<open>[:12]\<close>
  is always in range.
\<close>

definition GetPseudoVersion :: "env \<Rightarrow> string \<Rightarrow> error + string" where
  "GetPseudoVersion world modulePath =
     (case PlainOpen world modulePath of Inl err \<Rightarrow> Inl err | Inr repo \<Rightarrow>
     (case Head repo of Inl err \<Rightarrow> Inl err | Inr headRef \<Rightarrow>
     (case CommitObject repo (ref_Hash headRef) of Inl err \<Rightarrow> Inl err | Inr headCommit \<Rightarrow>
        let commitHash = take 12 (Hash_String (commit_Hash headCommit));
            commitDate = Format_20060102150405 (Author_When headCommit)
        in Inr (''v0.0.0-'' @ commitDate @ ''-'' @ commitHash))))"

definition GetModuleVersion :: "env \<Rightarrow> string \<Rightarrow> error + string" where
  "GetModuleVersion world modulePath =
     (case GetVersionFromTag world modulePath of
        Inl err \<Rightarrow>
          (case GetPseudoVersion world modulePath of
             Inl err' \<Rightarrow> Inl err'
           | Inr pseudoVersion \<Rightarrow> Inr pseudoVersion)
      | Inr tagVersion \<Rightarrow> Inr tagVersion)"

section \<open>Hashing\<close>

definition Hash :: "env \<Rightarrow> Module \<Rightarrow> error + string" where
  "Hash world m =
     (case HashDir world (Dir m) (Coordinates m) of
        Inl err \<Rightarrow> Inl err
      | Inr h1 \<Rightarrow> Inr h1)"

section \<open>Local replacements\<close>

text \<open>Assignments to the fields of a module.\<close>

definition withPath :: "string \<Rightarrow> Module \<Rightarrow> Module" where
  "withPath p m = (case m of Module d mn _ r v deps vd \<Rightarrow> Module d mn p r v deps vd)"

definition withVersion :: "string \<Rightarrow> Module \<Rightarrow> Module" where
  "withVersion v m = (case m of Module d mn p r _ deps vd \<Rightarrow> Module d mn p r v deps vd)"

definition withReplace :: "Module option \<Rightarrow> Module \<Rightarrow> Module" where
  "withReplace r m = (case m of Module d mn p _ v deps vd \<Rightarrow> Module d mn p r v deps vd)"

text \<open>One \<open>Decode\<close> of a module from the buffer.\<close>

fun Decode :: "jsonStream \<Rightarrow> error + Module" where
  "Decode [] = Inl EOF"
| "Decode (outcome # rest) = outcome"

text \<open>
  \<open>resolveLocalModule\<close>. The Go function changes the module behind the pointer and
  returns the error only; the model returns the changed module, with the lines it
  logged, when there is no error.
\<close>

definition resolveLocalModule :: "env \<Rightarrow> string \<Rightarrow> Module \<Rightarrow> error + Module \<times> logEntry list" where
  "resolveLocalModule world mainModulePath module =
     (if IsGoModule world (Dir module) \<and> HasPrefix (Dir module) (GetModuleCacheDir world)
      then Inr (module, [])
      else
        let modulePath =
              (if filepath_IsAbs (Path module) then Path module
               else filepath_Join [mainModulePath, Path module]) in
        if \<not> IsGoModule world modulePath then Inl ErrNoGoModule
        else
          (case GetModule world modulePath of Inl err \<Rightarrow> Inl err | Inr buf \<Rightarrow>
          (case Decode buf of Inl err \<Rightarrow> Inl err | Inr localModule \<Rightarrow>
             let module' = withPath (Path localModule) module in
             if Version module' = [] then
               (case GetModuleVersion world (Dir module') of
                  Inr version \<Rightarrow> Inr (withVersion version module', [])
                | Inl err \<Rightarrow> Inr (module', [FailedToResolveVersion (Path module') err]))
             else Inr (module', []))))"

text \<open>
  The loop of \<open>GetModules\<close> over the modules: a module that is not replaced, or whose
  replacement path is no module root, is passed over.
\<close>

fun resolveLocalModules :: "env \<Rightarrow> string \<Rightarrow> Module list \<Rightarrow> error + Module list \<times> logEntry list" where
  "resolveLocalModules world path [] = Inr ([], [])"
| "resolveLocalModules world path (m # ms) =
     (case (case Replace m of
              None \<Rightarrow> Inr (m, [])
            | Some r \<Rightarrow>
                if \<not> IsGoModule world (Path r) then Inr (m, [])
                else
                  (case resolveLocalModule world path r of
                     Inl err \<Rightarrow>
                       Inl (Wrapped (''resolving local module '' @ Coordinates r @ '' failed'') err)
                   | Inr (r', logged) \<Rightarrow> Inr (withReplace (Some r') m, logged)))
      of Inl err \<Rightarrow> Inl err
       | Inr (m', logged) \<Rightarrow>
           (case resolveLocalModules world path ms of
              Inl err \<Rightarrow> Inl err
            | Inr (ms', logged') \<Rightarrow> Inr (m' # ms', logged @ logged')))"


section \<open>The module list\<close>

text \<open>\<open>parseModules\<close>: the loop over the records of the buffer, to the end of the stream.\<close>

fun parseModules_loop :: "jsonStream \<Rightarrow> Module list \<Rightarrow> error + Module list" where
  "parseModules_loop [] modules = Inr modules"
| "parseModules_loop (Inl err # rest) modules =
     (if errors_Is err EOF then Inr modules else Inl err)"
| "parseModules_loop (Inr decoded # rest) modules = parseModules_loop rest (modules @ [decoded])"

definition parseModules :: "jsonStream \<Rightarrow> error + Module list" where
  "parseModules reader = parseModules_loop reader []"

text \<open>A panic is not an error value that the caller wraps: it passes through.\<close>

definition wrap :: "string \<Rightarrow> error \<Rightarrow> error" where
  "wrap msg err = (if isPanic err then err else Wrapped msg err)"

text \<open>The first part of \<open>GetModules\<close>: the module list, by either of the two listings.\<close>

definition listModules :: "env \<Rightarrow> string \<Rightarrow> error + Module list" where
  "listModules world path =
     (if \<not> IsVendoring world path then
        (case ListModules world path of
           Inl err \<Rightarrow> Inl (Wrapped ''listing modules failed'' err)
         | Inr buf \<Rightarrow>
             (case parseModules buf of
                Inl err \<Rightarrow> Inl (Wrapped ''parsing modules failed'' err)
              | Inr modules \<Rightarrow> Inr modules))
      else
        (case ListVendoredModules world path of
           Inl err \<Rightarrow> Inl (Wrapped ''listing vendored modules failed'' err)
         | Inr buf \<Rightarrow>
             (case parseVendoredModules path buf of
                Inl err \<Rightarrow> Inl (wrap ''parsing vendored modules failed'' err)
              | Inr modules \<Rightarrow>
                  (case GetModule world path of
                     Inl err \<Rightarrow> Inl (Wrapped ''listing main module failed'' err)
                   | Inr buf' \<Rightarrow>
                       (case Decode buf' of
                          Inl err \<Rightarrow> Inl (Wrapped ''parsing main module failed'' err)
                        | Inr mainModule \<Rightarrow> Inr ([mainModule] @ modules))))))"

text \<open>
  \<open>GetModules\<close>: the modules with their dependencies, and the lines logged on the way.
\<close>

definition GetModules :: "env \<Rightarrow> string \<Rightarrow> error + Module list \<times> logEntry list" where
  "GetModules world path =
     (if \<not> IsGoModule world path then Inl ErrNoGoModule
      else
        (case listModules world path of Inl err \<Rightarrow> Inl err | Inr modules \<Rightarrow>
        (case resolveLocalModules world path modules of
           Inl err \<Rightarrow> Inl err
         | Inr (modules', logged) \<Rightarrow>
             (case GetModuleGraph world path of
                Inl err \<Rightarrow> Inl (Wrapped ''listing module graph failed'' err)
              | Inr buf \<Rightarrow>
                  (case parseModuleGraph buf modules' of
                     Inl err \<Rightarrow> Inl (Wrapped ''parsing module graph failed'' err)
                   | Inr linked \<Rightarrow> Inr (linked, logged))))))"

section \<open>Examples\<close>

text \<open>
  A commit of 15 April 2021, 09:30:00; a repository whose head is that commit and is
  tagged \<open>v2.0.0\<close>; the same repository without the tag; and a repository whose tags
  cannot be listed and whose head commit cannot be read.
\<close>

definition exampleHash :: "160 word" where
  "exampleHash = 0x0123456789abcdef0123456789abcdef01234567"




definition brokenRepository :: Repository where
  "brokenRepository =
     \<lparr>Head = Inr (Reference ''refs/heads/main'' exampleHash),
      Tags = Inl (External ''reading the tags failed''),
      CommitObject = (\<lambda>h. Inl ErrObjectNotFound)\<rparr>"

text \<open>
  A project at \<open>/proj\<close> whose dependency \<open>example.com/lib\<close> is replaced by the local
  directory \<open>../src/local\<close>, a module root that declares the path \<open>example.com/local\<close>.
  The argument is what opening \<open>/src/local\<close> as a repository gives.
\<close>

definition exampleReplacement :: Module where
  "exampleReplacement = Module ''/src/local'' False ''../src/local'' None [] [] False"

definition exampleWorld :: "error + Repository \<Rightarrow> env" where
  "exampleWorld opened =
     \<lparr>IsGoModule = (\<lambda>p. p = ''/proj'' \<or> p = ''/src/local'' \<or> p = ''../src/local''),
      IsVendoring = (\<lambda>p. False),
      GetModuleCacheDir = ''/go/pkg/mod'',
      ListModules = (\<lambda>p. if p = ''/proj''
         then Inr [Inr (Module ''/proj'' True ''example.com/main'' None [] [] False),
                   Inr (Module [] False ''example.com/lib'' (Some exampleReplacement)
                          ''v1.0.0'' [] False)]
         else Inl (External ''go list failed'')),
      ListVendoredModules = (\<lambda>p. Inl (External ''go mod vendor failed'')),
      GetModule = (\<lambda>p. if p = ''/src/local''
         then Inr [Inr (Module ''/src/local'' True ''example.com/local'' None [] [] False)]
         else Inl (External ''go list failed'')),
      GetModuleGraph = (\<lambda>p. Inr [''example.com/main example.com/lib@v1.0.0'']),
      PlainOpen = (\<lambda>p. if p = ''/src/local'' then opened
         else Inl (External ''repository does not exist'')),
      HashDir = (\<lambda>dir prefix. Inl (External ''no such directory''))\<rparr>"



section \<open>Properties of graph assembly\<close>

lemma findModule_from_first:
  "k < length ms \<Longrightarrow> \<forall>j<k. Coordinates (ms ! j) \<noteq> Coordinates (ms ! k) \<Longrightarrow>
   findModule_from i ms (Coordinates (ms ! k)) =
     Some (if Replace (ms ! k) \<noteq> None then ReplaceOf (i + k) else ModuleAt (i + k))"
proof (induction ms arbitrary: i k)
  case Nil
  then show ?case by simp
next
  case (Cons m ms)
  show ?case
  proof (cases k)
    case 0
    then show ?thesis by simp
  next
    case (Suc k')
    have ne: "Coordinates m \<noteq> Coordinates (ms ! k')"
      using Cons.prems(2) Suc by auto
    have lt: "k' < length ms" using Cons.prems(1) Suc by simp
    have prev: "\<forall>j<k'. Coordinates (ms ! j) \<noteq> Coordinates (ms ! k')"
    proof (intro allI impI)
      fix j assume "j < k'"
      then have "Suc j < k" using Suc by simp
      with Cons.prems(2) have "Coordinates ((m # ms) ! Suc j) \<noteq> Coordinates ((m # ms) ! k)" by blast
      then show "Coordinates (ms ! j) \<noteq> Coordinates (ms ! k')" using Suc by simp
    qed
    from Cons.IH[OF lt prev, of "Suc i"] ne show ?thesis using Suc by auto
  qed
qed

lemma findModule_from_cong:
  "map lookupKey ms = map lookupKey ms' \<Longrightarrow> findModule_from i ms c = findModule_from i ms' c"
proof (induction ms arbitrary: ms' i)
  case Nil
  then show ?case by simp
next
  case (Cons m ms)
  then obtain m' ms'' where ms': "ms' = m' # ms''" by (cases ms') auto
  with Cons.prems have k: "lookupKey m = lookupKey m'" and r: "map lookupKey ms = map lookupKey ms''" by auto
  from k have "Coordinates m = Coordinates m'" "(Replace m \<noteq> None) = (Replace m' \<noteq> None)"
    by (auto simp: lookupKey_def)
  with Cons.IH[OF r] show ?case by (simp add: ms')
qed

lemma lookupKey_appendDependency: "lookupKey (appendDependency d m) = lookupKey m"
  by (cases m) (simp add: lookupKey_def appendDependency_def Coordinates_def)

lemma map_update_same: "f v = f (xs ! i) \<Longrightarrow> map f (xs[i := v]) = map f xs"
  by (metis list_update_id map_update)

lemma lookupKey_addDependency: "map lookupKey (addDependency x y ms) = map lookupKey ms"
proof (cases x)
  case (ModuleAt i)
  then show ?thesis by (simp add: map_update_same lookupKey_appendDependency)
next
  case (ReplaceOf i)
  have "lookupKey (case ms ! i of Module d mn p r v deps vd \<Rightarrow>
        Module d mn p (map_option (appendDependency y) r) v deps vd) = lookupKey (ms ! i)"
    by (cases "ms ! i") (simp add: lookupKey_def Coordinates_def)
  then show ?thesis using ReplaceOf by (simp add: map_update_same)
qed

lemma parseModuleGraph_lookupKey:
  "parseModuleGraph lines ms = Inr ms' \<Longrightarrow> map lookupKey ms' = map lookupKey ms"
proof (induction lines arbitrary: ms)
  case Nil
  then show ?case by simp
next
  case (Cons l lines)
  then show ?case
    by (auto simp: Let_def lookupKey_addDependency split: if_splits option.splits)
qed

lemma parseModuleGraph_append:
  "parseModuleGraph (pre @ post) ms =
     (case parseModuleGraph pre ms of Inl e \<Rightarrow> Inl e | Inr ms' \<Rightarrow> parseModuleGraph post ms')"
proof (induction pre arbitrary: ms)
  case Nil
  then show ?case by simp
next
  case (Cons l pre)
  then show ?case by (simp add: Let_def split: option.splits)
qed

text \<open>
  Claim C1. Looking a module up by the coordinates of a record (its \<open>Path\<close>, or
  \<open>Path@Version\<close> when it has a version) yields the \<open>Replace\<close> pointer of that record
  when the record is replaced, and the address of the record itself when it is not.
  Coordinates are the key of the lookup, and the loop returns at the first record that
  has them: the record looked up is the first of the slice with its coordinates (every
  record is, when the coordinates of the slice are distinct). The two endpoints of an
  edge line are resolved by the same \<open>findModule\<close>, the dependency is added to the
  module the first endpoint resolves to, and an endpoint that resolves to nothing drops
  the edge.
\<close>

theorem findModule_replacement_precedence:
  assumes "k < length modules"
    and "\<forall>j<k. Coordinates (modules ! j) \<noteq> Coordinates (modules ! k)"
  shows "(\<forall>r. Replace (modules ! k) = Some r \<longrightarrow>
            findModule modules (Coordinates (modules ! k)) = Some (ReplaceOf k) \<and>
            deref modules (ReplaceOf k) = Some r)
       \<and> (Replace (modules ! k) = None \<longrightarrow>
            findModule modules (Coordinates (modules ! k)) = Some (ModuleAt k) \<and>
            deref modules (ModuleAt k) = Some (modules ! k))
       \<and> (\<forall>raw rest a b. Fields (TrimSpace raw) = [a, b] \<longrightarrow>
            parseModuleGraph (raw # rest) modules =
              (case findModule modules a of
                 None \<Rightarrow> parseModuleGraph rest modules
               | Some dependant \<Rightarrow>
                   (case findModule modules b of
                      None \<Rightarrow> parseModuleGraph rest modules
                    | Some dependency \<Rightarrow>
                        parseModuleGraph rest (addDependency dependant dependency modules))))"
proof (intro conjI allI impI)
  fix r assume "Replace (modules ! k) = Some r"
  then show "findModule modules (Coordinates (modules ! k)) = Some (ReplaceOf k)"
    using findModule_from_first[OF assms, of 0] by (simp add: findModule_def)
  show "deref modules (ReplaceOf k) = Some r"
    using assms(1) \<open>Replace (modules ! k) = Some r\<close> by simp
next
  assume "Replace (modules ! k) = None"
  then show "findModule modules (Coordinates (modules ! k)) = Some (ModuleAt k)"
    using findModule_from_first[OF assms, of 0] by (simp add: findModule_def)
  show "deref modules (ModuleAt k) = Some (modules ! k)"
    using assms(1) by simp
next
  fix raw rest a b assume f: "Fields (TrimSpace raw) = [a, b]"
  then have "TrimSpace raw \<noteq> []" by (auto simp: Fields_def)
  with f show "parseModuleGraph (raw # rest) modules =
              (case findModule modules a of
                 None \<Rightarrow> parseModuleGraph rest modules
               | Some dependant \<Rightarrow>
                   (case findModule modules b of
                      None \<Rightarrow> parseModuleGraph rest modules
                    | Some dependency \<Rightarrow>
                        parseModuleGraph rest (addDependency dependant dependency modules)))"
    by (simp add: Let_def split: option.splits)
qed

theorem findModule_replacement_precedence_witness:
  "findModule exampleModules ''github.com/foo/bar@v1.2.3'' = Some (ReplaceOf 1)
   \<and> deref exampleModules (ReplaceOf 1) =
       Some (Module ''/cache/fork'' False ''github.com/fork/bar'' None ''v1.3.0'' [] False)
   \<and> findModule exampleModules ''github.com/baz/qux@v0.1.0'' = Some (ModuleAt 2)
   \<and> parseModuleGraph [''github.com/foo/bar@v1.2.3 github.com/baz/qux@v0.1.0''] exampleModules =
       Inr (addDependency (ReplaceOf 1) (ModuleAt 2) exampleModules)"
proof -
  have len: "(1::nat) < length exampleModules" "(2::nat) < length exampleModules"
    by (simp_all add: exampleModules_def)
  have first1: "\<forall>j<1. Coordinates (exampleModules ! j) \<noteq> Coordinates (exampleModules ! 1)"
    by (simp add: exampleModules_def Coordinates_def)
  have first2: "\<forall>j<2. Coordinates (exampleModules ! j) \<noteq> Coordinates (exampleModules ! 2)"
    by (simp add: exampleModules_def Coordinates_def less_Suc_eq numeral_2_eq_2)
  have c1: "Coordinates (exampleModules ! 1) = ''github.com/foo/bar@v1.2.3''"
    and c2: "Coordinates (exampleModules ! 2) = ''github.com/baz/qux@v0.1.0''"
    and r1: "Replace (exampleModules ! 1) =
       Some (Module ''/cache/fork'' False ''github.com/fork/bar'' None ''v1.3.0'' [] False)"
    and r2: "Replace (exampleModules ! 2) = None"
    by (simp_all add: exampleModules_def Coordinates_def)
  have f: "Fields (TrimSpace ''github.com/foo/bar@v1.2.3 github.com/baz/qux@v0.1.0'') =
      [''github.com/foo/bar@v1.2.3'', ''github.com/baz/qux@v0.1.0'']"
    by (simp add: Fields_def TrimSpace_def isSpace_def)
  note t1 = findModule_replacement_precedence[OF len(1) first1]
  note t2 = findModule_replacement_precedence[OF len(2) first2]
  from t1 r1 c1 have a: "findModule exampleModules ''github.com/foo/bar@v1.2.3'' = Some (ReplaceOf 1)"
    and b: "deref exampleModules (ReplaceOf 1) =
       Some (Module ''/cache/fork'' False ''github.com/fork/bar'' None ''v1.3.0'' [] False)"
    by simp_all
  from t2 r2 c2 have c: "findModule exampleModules ''github.com/baz/qux@v0.1.0'' = Some (ModuleAt 2)"
    by simp
  from t1 f have "parseModuleGraph [''github.com/foo/bar@v1.2.3 github.com/baz/qux@v0.1.0''] exampleModules =
       (case findModule exampleModules ''github.com/foo/bar@v1.2.3'' of
                 None \<Rightarrow> parseModuleGraph [] exampleModules
               | Some dependant \<Rightarrow>
                   (case findModule exampleModules ''github.com/baz/qux@v0.1.0'' of
                      None \<Rightarrow> parseModuleGraph [] exampleModules
                    | Some dependency \<Rightarrow>
                        parseModuleGraph [] (addDependency dependant dependency exampleModules)))"
    by blast
  with a c have d: "parseModuleGraph [''github.com/foo/bar@v1.2.3 github.com/baz/qux@v0.1.0''] exampleModules =
       Inr (addDependency (ReplaceOf 1) (ModuleAt 2) exampleModules)" by simp
  from a b c d show ?thesis by blast
qed

text \<open>
  Claim C4. A line of the edge list that is not blank after trimming and does not split
  into exactly two fields makes graph assembly fail: wherever such a line stands, the
  result is the error "expected two fields per line", whose count is not two; when the
  lines before it are accepted, the error is the one of this line, with its number of
  fields and its trimmed text. A blank line is skipped: assembly gives the same result
  with and without it.
\<close>

theorem parseModuleGraph_malformed_line_fatal:
  "(TrimSpace raw \<noteq> [] \<and> length (Fields (TrimSpace raw)) \<noteq> 2 \<and> raw \<in> set lines \<longrightarrow>
      (\<exists>n line. parseModuleGraph lines modules = Inl (ExpectedTwoFields n line) \<and> n \<noteq> 2))
   \<and> (TrimSpace raw \<noteq> [] \<and> length (Fields (TrimSpace raw)) \<noteq> 2 \<and>
        parseModuleGraph pre modules = Inr modules' \<longrightarrow>
      parseModuleGraph (pre @ raw # post) modules =
        Inl (ExpectedTwoFields (length (Fields (TrimSpace raw))) (TrimSpace raw)))
   \<and> (TrimSpace raw = [] \<longrightarrow>
      parseModuleGraph (pre @ raw # post) modules = parseModuleGraph (pre @ post) modules)"
proof (intro conjI impI)
  assume h: "TrimSpace raw \<noteq> [] \<and> length (Fields (TrimSpace raw)) \<noteq> 2 \<and> raw \<in> set lines"
  then show "\<exists>n line. parseModuleGraph lines modules = Inl (ExpectedTwoFields n line) \<and> n \<noteq> 2"
  proof (induction lines arbitrary: modules)
    case Nil
    then show ?case by simp
  next
    case (Cons l lines)
    show ?case
    proof (cases "l = raw")
      case True
      with Cons.prems show ?thesis by (simp add: Let_def)
    next
      case False
      with Cons.prems have "TrimSpace raw \<noteq> [] \<and> length (Fields (TrimSpace raw)) \<noteq> 2 \<and> raw \<in> set lines"
        by simp
      from Cons.IH[OF this] show ?thesis
        by (simp add: Let_def split: option.splits)
    qed
  qed
next
  assume "TrimSpace raw \<noteq> [] \<and> length (Fields (TrimSpace raw)) \<noteq> 2 \<and>
        parseModuleGraph pre modules = Inr modules'"
  then show "parseModuleGraph (pre @ raw # post) modules =
        Inl (ExpectedTwoFields (length (Fields (TrimSpace raw))) (TrimSpace raw))"
    by (simp add: parseModuleGraph_append Let_def)
next
  assume "TrimSpace raw = []"
  then show "parseModuleGraph (pre @ raw # post) modules = parseModuleGraph (pre @ post) modules"
    by (simp add: parseModuleGraph_append split: sum.splits)
qed

theorem parseModuleGraph_malformed_line_fatal_witness:
  "parseModuleGraph
      [''example.com/main github.com/baz/qux@v0.1.0'', ''   '',
       ''example.com/main github.com/baz/qux@v0.1.0 extra'', ''example.com/main'']
      exampleModules =
     Inl (ExpectedTwoFields 3 ''example.com/main github.com/baz/qux@v0.1.0 extra'')
   \<and> parseModuleGraph [''example.com/main''] exampleModules =
     Inl (ExpectedTwoFields 1 ''example.com/main'')
   \<and> parseModuleGraph [''   '', ''example.com/main github.com/baz/qux@v0.1.0''] exampleModules =
     parseModuleGraph [''example.com/main github.com/baz/qux@v0.1.0''] exampleModules"
proof -
  have three: "TrimSpace ''example.com/main github.com/baz/qux@v0.1.0 extra'' =
      ''example.com/main github.com/baz/qux@v0.1.0 extra''"
    "Fields ''example.com/main github.com/baz/qux@v0.1.0 extra'' =
      [''example.com/main'', ''github.com/baz/qux@v0.1.0'', ''extra'']"
    by (simp_all add: Fields_def TrimSpace_def isSpace_def)
  have one: "TrimSpace ''example.com/main'' = ''example.com/main''"
    "Fields ''example.com/main'' = [''example.com/main'']"
    by (simp_all add: Fields_def TrimSpace_def isSpace_def)
  have blank: "TrimSpace ''   '' = []"
    by (simp add: TrimSpace_def isSpace_def)
  have pre: "parseModuleGraph [''example.com/main github.com/baz/qux@v0.1.0'', ''   ''] exampleModules =
      Inr (addDependency (ModuleAt 0) (ModuleAt 2) exampleModules)"
    by (simp add: Fields_def TrimSpace_def isSpace_def findModule_def Coordinates_def
        exampleModules_def Let_def numeral_2_eq_2)
  have a: "parseModuleGraph
      ([''example.com/main github.com/baz/qux@v0.1.0'', ''   ''] @
       ''example.com/main github.com/baz/qux@v0.1.0 extra'' # [''example.com/main''])
      exampleModules =
     Inl (ExpectedTwoFields 3 ''example.com/main github.com/baz/qux@v0.1.0 extra'')"
    using parseModuleGraph_malformed_line_fatal
      [of "''example.com/main github.com/baz/qux@v0.1.0 extra''" _
          exampleModules "[''example.com/main github.com/baz/qux@v0.1.0'', ''   '']"
          "addDependency (ModuleAt 0) (ModuleAt 2) exampleModules" "[''example.com/main'']"]
      three pre by simp
  have b: "parseModuleGraph ([] @ ''example.com/main'' # []) exampleModules =
     Inl (ExpectedTwoFields 1 ''example.com/main'')"
    using parseModuleGraph_malformed_line_fatal
      [of "''example.com/main''" _ exampleModules "[]" exampleModules "[]"] one by simp
  have c: "parseModuleGraph ([] @ ''   '' # [''example.com/main github.com/baz/qux@v0.1.0'']) exampleModules =
     parseModuleGraph ([] @ [''example.com/main github.com/baz/qux@v0.1.0'']) exampleModules"
    using parseModuleGraph_malformed_line_fatal
      [of "''   ''" _ exampleModules "[]" _ "[''example.com/main github.com/baz/qux@v0.1.0'']"] blank
    by blast
  from a b c show ?thesis by simp
qed

text \<open>
  Claim C5. An edge line of two fields of which the dependant or the dependency resolves
  to no module is dropped: alone it leaves every module as it was and gives no error,
  and anywhere in the edge list the result of assembly, error or modules with all their
  \<open>Dependencies\<close>, is the one of the list without that line.
\<close>

theorem parseModuleGraph_dangling_edge_dropped:
  assumes "Fields (TrimSpace raw) = [dependant, dependency]"
    and "findModule modules dependant = None \<or> findModule modules dependency = None"
  shows "parseModuleGraph [raw] modules = Inr modules
       \<and> parseModuleGraph (pre @ raw # post) modules = parseModuleGraph (pre @ post) modules"
proof
  from assms(1) have ne: "TrimSpace raw \<noteq> []" by (auto simp: Fields_def)
  have step: "parseModuleGraph (raw # rest) ms = parseModuleGraph rest ms"
    if "map lookupKey ms = map lookupKey modules" for rest ms
  proof -
    from that have "findModule ms c = findModule modules c" for c
      unfolding findModule_def by (rule findModule_from_cong)
    with assms ne show ?thesis by (auto simp: Let_def split: option.splits)
  qed
  from step[of modules "[]"] show "parseModuleGraph [raw] modules = Inr modules" by simp
  show "parseModuleGraph (pre @ raw # post) modules = parseModuleGraph (pre @ post) modules"
  proof (cases "parseModuleGraph pre modules")
    case (Inl e)
    then show ?thesis by (simp add: parseModuleGraph_append)
  next
    case (Inr ms)
    from parseModuleGraph_lookupKey[OF Inr] step[of ms post] Inr show ?thesis
      by (simp add: parseModuleGraph_append)
  qed
qed

theorem parseModuleGraph_dangling_edge_dropped_witness:
  "parseModuleGraph [''example.com/main github.com/absent/mod@v9.9.9''] exampleModules =
     Inr exampleModules
   \<and> parseModuleGraph
       [''example.com/main github.com/baz/qux@v0.1.0'',
        ''example.com/main github.com/absent/mod@v9.9.9'',
        ''github.com/foo/bar@v1.2.3 github.com/baz/qux@v0.1.0''] exampleModules =
     parseModuleGraph
       [''example.com/main github.com/baz/qux@v0.1.0'',
        ''github.com/foo/bar@v1.2.3 github.com/baz/qux@v0.1.0''] exampleModules"
proof -
  have f: "Fields (TrimSpace ''example.com/main github.com/absent/mod@v9.9.9'') =
      [''example.com/main'', ''github.com/absent/mod@v9.9.9'']"
    by (simp add: Fields_def TrimSpace_def isSpace_def)
  have d: "findModule exampleModules ''example.com/main'' = None \<or>
      findModule exampleModules ''github.com/absent/mod@v9.9.9'' = None"
    by (simp add: findModule_def Coordinates_def exampleModules_def)
  from parseModuleGraph_dangling_edge_dropped[OF f d,
      of "[''example.com/main github.com/baz/qux@v0.1.0'']"
         "[''github.com/foo/bar@v1.2.3 github.com/baz/qux@v0.1.0'']"]
  show ?thesis by simp
qed

section \<open>Properties of the vendor manifest\<close>

lemma StringSliceIndex_from_first:
  "needle \<notin> set xs \<Longrightarrow> StringSliceIndex_from i (xs @ needle # ys) needle = int (i + length xs)"
  by (induction xs arbitrary: i) auto

text \<open>
  Claim C2. A line of the vendor manifest \<open># Path Version\<close> gives a vendored record whose
  directory is the join of the root, \<open>vendor\<close> and that path. A replacement line
  \<open># Path [Version] => Path [Version]\<close> gives a record for the path on the left of the
  arrow whose \<open>Replace\<close> is the module on the right, vendored, and the directory of that
  replacement is the join of the root, \<open>vendor\<close> and the path on the left: the
  replacement's own path is not used for it.
\<close>

theorem parseVendoredModules_directory:
  assumes "HasPrefix (TrimSpace raw) ''# ''"
  shows "(Fields (TrimPrefix (TrimSpace raw) ''# '') = [p, v] \<and> p \<noteq> ''=>'' \<and> v \<noteq> ''=>'' \<longrightarrow>
           parseVendoredModules_loop path (raw # rest) modules =
           parseVendoredModules_loop path rest (modules @
             [Module (filepath_Join [path, ''vendor'', p]) False p None v [] True]))
       \<and> (Fields (TrimPrefix (TrimSpace raw) ''# '') = p # vs @ ''=>'' # p' # vs' \<and>
          ''=>'' \<notin> set (p # vs) \<and> length vs \<le> 1 \<and> length vs' \<le> 1 \<longrightarrow>
           parseVendoredModules_loop path (raw # rest) modules =
           parseVendoredModules_loop path rest (modules @
             [Module [] False p
                (Some (Module (filepath_Join [path, ''vendor'', p]) False p' None
                   (case vs' of [] \<Rightarrow> [] | v' # _ \<Rightarrow> v') [] True))
                (case vs of [] \<Rightarrow> [] | v # _ \<Rightarrow> v) [] False]))"
proof (intro conjI impI)
  assume h: "Fields (TrimPrefix (TrimSpace raw) ''# '') = [p, v] \<and> p \<noteq> ''=>'' \<and> v \<noteq> ''=>''"
  then have "StringSliceIndex [p, v] ''=>'' = - 1"
    by (simp add: StringSliceIndex_def)
  with h assms show "parseVendoredModules_loop path (raw # rest) modules =
           parseVendoredModules_loop path rest (modules @
             [Module (filepath_Join [path, ''vendor'', p]) False p None v [] True])"
    by (simp add: Let_def)
next
  assume h: "Fields (TrimPrefix (TrimSpace raw) ''# '') = p # vs @ ''=>'' # p' # vs' \<and>
          ''=>'' \<notin> set (p # vs) \<and> length vs \<le> 1 \<and> length vs' \<le> 1"
  then have fs: "Fields (TrimPrefix (TrimSpace raw) ''# '') = (p # vs) @ ''=>'' # p' # vs'"
    and absent: "''=>'' \<notin> set (p # vs)" by simp_all
  have idx: "StringSliceIndex ((p # vs) @ ''=>'' # p' # vs') ''=>'' = int (length (p # vs))"
    unfolding StringSliceIndex_def using StringSliceIndex_from_first[OF absent, of 0 "p' # vs'"] by simp
  from h consider "vs = []" | v where "vs = [v]"
    by (cases vs) auto
  note cv = this
  from h consider "vs' = []" | v' where "vs' = [v']"
    by (cases vs') auto
  note cv' = this
  show "parseVendoredModules_loop path (raw # rest) modules =
           parseVendoredModules_loop path rest (modules @
             [Module [] False p
                (Some (Module (filepath_Join [path, ''vendor'', p]) False p' None
                   (case vs' of [] \<Rightarrow> [] | v' # _ \<Rightarrow> v') [] True))
                (case vs of [] \<Rightarrow> [] | v # _ \<Rightarrow> v) [] False])"
    using assms fs idx
    by (cases rule: cv; cases rule: cv') (simp_all add: Let_def index_def)
qed

theorem parseVendoredModules_directory_witness:
  "parseVendoredModules ''/proj'' [''# github.com/foo/bar v1.2.3 => ../local/bar''] =
     Inr [Module [] False ''github.com/foo/bar''
            (Some (Module ''/proj/vendor/github.com/foo/bar'' False ''../local/bar'' None [] [] True))
            ''v1.2.3'' [] False]
   \<and> parseVendoredModules ''/proj'' [''# github.com/baz/qux v0.1.0''] =
     Inr [Module ''/proj/vendor/github.com/baz/qux'' False ''github.com/baz/qux'' None ''v0.1.0'' [] True]
   \<and> filepath_Join [''/proj'', ''vendor'', ''../local/bar''] = ''/proj/local/bar''"
proof -
  have pre1: "HasPrefix (TrimSpace ''# github.com/foo/bar v1.2.3 => ../local/bar'') ''# ''"
    and pre2: "HasPrefix (TrimSpace ''# github.com/baz/qux v0.1.0'') ''# ''"
    by (simp_all add: HasPrefix_def TrimSpace_def isSpace_def)
  have f1: "Fields (TrimPrefix (TrimSpace ''# github.com/foo/bar v1.2.3 => ../local/bar'') ''# '') =
      ''github.com/foo/bar'' # [''v1.2.3''] @ ''=>'' # ''../local/bar'' # []"
    and f2: "Fields (TrimPrefix (TrimSpace ''# github.com/baz/qux v0.1.0'') ''# '') =
      [''github.com/baz/qux'', ''v0.1.0'']"
    by (simp_all add: Fields_def TrimPrefix_def HasPrefix_def TrimSpace_def isSpace_def)
  have j1: "filepath_Join [''/proj'', ''vendor'', ''github.com/foo/bar''] = ''/proj/vendor/github.com/foo/bar''"
    and j2: "filepath_Join [''/proj'', ''vendor'', ''github.com/baz/qux''] = ''/proj/vendor/github.com/baz/qux''"
    and j3: "filepath_Join [''/proj'', ''vendor'', ''../local/bar''] = ''/proj/local/bar''"
    by (simp_all add: filepath_Join_def filepath_Clean_def cleanStep_def Let_def)
  from parseVendoredModules_directory[OF pre1, where p = "''github.com/foo/bar''"
      and vs = "[''v1.2.3'']" and p' = "''../local/bar''" and vs' = "[]" and path = "''/proj''"
      and rest = "[]" and modules = "[]"] f1 j1
  have a: "parseVendoredModules ''/proj'' [''# github.com/foo/bar v1.2.3 => ../local/bar''] =
     Inr [Module [] False ''github.com/foo/bar''
            (Some (Module ''/proj/vendor/github.com/foo/bar'' False ''../local/bar'' None [] [] True))
            ''v1.2.3'' [] False]"
    unfolding parseVendoredModules_def by simp
  from parseVendoredModules_directory[OF pre2, where p = "''github.com/baz/qux''"
      and v = "''v0.1.0''" and path = "''/proj''" and rest = "[]" and modules = "[]"] f2 j2
  have b: "parseVendoredModules ''/proj'' [''# github.com/baz/qux v0.1.0''] =
     Inr [Module ''/proj/vendor/github.com/baz/qux'' False ''github.com/baz/qux'' None ''v0.1.0'' [] True]"
    unfolding parseVendoredModules_def by simp
  from a b j3 show ?thesis by blast
qed

text \<open>
  Claim C6 is about a descriptive line of the wrong shape, such as \<open># example.com/a =>\<close>,
  where no field follows the arrow. On that line the code reads \<open>fields[arrowIndex+1]\<close>
  with two fields and the arrow at index 1: the index 2 is out of range and the program
  panics; no parse error is returned.
\<close>

theorem parseVendoredModules_arrow_last_panics:
  "parseVendoredModules path [''# example.com/a =>''] = Inl (PanicIndexOutOfRange 2 2)"
proof -
  have "TrimSpace ''# example.com/a =>'' = ''# example.com/a =>''"
    by (simp add: TrimSpace_def isSpace_def)
  moreover have "Fields ''example.com/a =>'' = [''example.com/a'', ''=>'']"
    by (simp add: Fields_def isSpace_def)
  ultimately show ?thesis
    by (simp add: parseVendoredModules_def HasPrefix_def TrimPrefix_def Let_def
        StringSliceIndex_def index_def)
qed

section \<open>Properties of version resolution\<close>

















text \<open>
  Claim C9, as amended. When both strategies fail, version resolution returns the error
  of the pseudo-version strategy alone: the error of the tag-based strategy is dropped
  and is no part of the result.
\<close>

theorem GetModuleVersion_both_fail:
  assumes "GetVersionFromTag world p = Inl tagErr"
    and "GetPseudoVersion world p = Inl pseudoErr"
  shows "GetModuleVersion world p = Inl pseudoErr"
  using assms by (simp add: GetModuleVersion_def)

theorem GetModuleVersion_both_fail_witness:
  "GetVersionFromTag (exampleWorld (Inl (External ''repository does not exist''))) ''/src/local'' =
     Inl (External ''repository does not exist'')
   \<and> GetPseudoVersion (exampleWorld (Inl (External ''repository does not exist''))) ''/src/local'' =
     Inl (External ''repository does not exist'')
   \<and> GetModuleVersion (exampleWorld (Inl (External ''repository does not exist''))) ''/src/local'' =
     Inl (External ''repository does not exist'')"
proof -
  let ?w = "exampleWorld (Inl (External ''repository does not exist''))"
  have t: "GetVersionFromTag ?w ''/src/local'' = Inl (External ''repository does not exist'')"
    by (simp add: GetVersionFromTag_def exampleWorld_def)
  have p: "GetPseudoVersion ?w ''/src/local'' = Inl (External ''repository does not exist'')"
    by (simp add: GetPseudoVersion_def exampleWorld_def)
  from GetModuleVersion_both_fail[OF t p] t p show ?thesis by blast
qed

text \<open>
  Claim C9 as stated says that the error returned carries the causes of both failures.
  In a repository whose tags cannot be listed and whose head commit cannot be read, the
  tag-based strategy fails with the error of the listing and the result is the error of
  the commit lookup, which does not carry the former.
\<close>

theorem GetModuleVersion_drops_tag_error:
  "GetVersionFromTag (exampleWorld (Inr brokenRepository)) ''/src/local'' =
     Inl (External ''reading the tags failed'')
   \<and> GetPseudoVersion (exampleWorld (Inr brokenRepository)) ''/src/local'' = Inl ErrObjectNotFound
   \<and> GetModuleVersion (exampleWorld (Inr brokenRepository)) ''/src/local'' = Inl ErrObjectNotFound
   \<and> \<not> errors_Is ErrObjectNotFound (External ''reading the tags failed'')"
  by (simp add: GetModuleVersion_def GetVersionFromTag_def GetPseudoVersion_def
      exampleWorld_def brokenRepository_def)

section \<open>Properties of local replacements and of hashing\<close>








text \<open>
  Claim C8. When the local module is found, the replacement declares no version and
  version resolution fails on its directory, \<open>resolveLocalModule\<close> returns no error: the
  path is the one discovered, one line is logged with the error, the version stays
  empty, and the loop of \<open>GetModules\<close> goes on to the next module.
\<close>

theorem resolveLocalModule_version_failure_tolerated:
  assumes "\<not> (IsGoModule world (Dir r) \<and> HasPrefix (Dir r) (GetModuleCacheDir world))"
    and "modulePath = (if filepath_IsAbs (Path r) then Path r else filepath_Join [path, Path r])"
    and "IsGoModule world modulePath"
    and "GetModule world modulePath = Inr buf"
    and "Decode buf = Inr localModule"
    and "Version r = []"
    and "GetModuleVersion world (Dir r) = Inl err"
  shows "resolveLocalModule world path r =
           Inr (withPath (Path localModule) r, [FailedToResolveVersion (Path localModule) err])
       \<and> Version (withPath (Path localModule) r) = []
       \<and> (\<forall>m ms. Replace m = Some r \<and> IsGoModule world (Path r) \<longrightarrow>
            resolveLocalModules world path (m # ms) =
              (case resolveLocalModules world path ms of
                 Inl err' \<Rightarrow> Inl err'
               | Inr (ms', logged) \<Rightarrow>
                   Inr (withReplace (Some (withPath (Path localModule) r)) m # ms',
                        FailedToResolveVersion (Path localModule) err # logged)))"
proof -
  have sel: "Version (withPath q r) = Version r" "Dir (withPath q r) = Dir r"
    "Path (withPath q r) = q" for q
    by (cases r; simp add: withPath_def)+
  from assms have res: "resolveLocalModule world path r =
      Inr (withPath (Path localModule) r, [FailedToResolveVersion (Path localModule) err])"
    by (simp add: resolveLocalModule_def Let_def sel)
  moreover have "Version (withPath (Path localModule) r) = []"
    using assms(6) by (simp add: sel)
  moreover have "\<forall>m ms. Replace m = Some r \<and> IsGoModule world (Path r) \<longrightarrow>
            resolveLocalModules world path (m # ms) =
              (case resolveLocalModules world path ms of
                 Inl err' \<Rightarrow> Inl err'
               | Inr (ms', logged) \<Rightarrow>
                   Inr (withReplace (Some (withPath (Path localModule) r)) m # ms',
                        FailedToResolveVersion (Path localModule) err # logged))"
    using res by (auto split: sum.splits prod.splits)
  ultimately show ?thesis by blast
qed

theorem resolveLocalModule_version_failure_tolerated_witness:
  "resolveLocalModule (exampleWorld (Inl (External ''repository does not exist''))) ''/proj''
      exampleReplacement =
     Inr (Module ''/src/local'' False ''example.com/local'' None [] [] False,
          [FailedToResolveVersion ''example.com/local'' (External ''repository does not exist'')])
   \<and> GetModules (exampleWorld (Inl (External ''repository does not exist''))) ''/proj'' =
     Inr ([Module ''/proj'' True ''example.com/main'' None [] [ReplaceOf 1] False,
           Module [] False ''example.com/lib''
             (Some (Module ''/src/local'' False ''example.com/local'' None [] [] False))
             ''v1.0.0'' [] False],
          [FailedToResolveVersion ''example.com/local'' (External ''repository does not exist'')])"
proof -
  let ?w = "exampleWorld (Inl (External ''repository does not exist''))"
  let ?local = "Module ''/src/local'' True ''example.com/local'' None [] [] False"
  have cache: "\<not> (IsGoModule ?w (Dir exampleReplacement) \<and>
      HasPrefix (Dir exampleReplacement) (GetModuleCacheDir ?w))"
    by (simp add: exampleWorld_def exampleReplacement_def HasPrefix_def)
  have mp: "''/src/local'' =
      (if filepath_IsAbs (Path exampleReplacement) then Path exampleReplacement
       else filepath_Join [''/proj'', Path exampleReplacement])"
    by (simp add: exampleReplacement_def filepath_IsAbs_def HasPrefix_def
        filepath_Join_def filepath_Clean_def cleanStep_def Let_def)
  have isMod: "IsGoModule ?w ''/src/local''" by (simp add: exampleWorld_def)
  have buf: "GetModule ?w ''/src/local'' = Inr [Inr ?local]" by (simp add: exampleWorld_def)
  have dec: "Decode [Inr ?local] = Inr ?local" by simp
  have nov: "Version exampleReplacement = []" by (simp add: exampleReplacement_def)
  have fail: "GetModuleVersion ?w (Dir exampleReplacement) = Inl (External ''repository does not exist'')"
    by (simp add: GetModuleVersion_def GetVersionFromTag_def GetPseudoVersion_def
        exampleWorld_def exampleReplacement_def)
  have gate: "IsGoModule ?w (Path exampleReplacement)"
    by (simp add: exampleWorld_def exampleReplacement_def)
  have wp: "withPath (Path ?local) exampleReplacement =
      Module ''/src/local'' False ''example.com/local'' None [] [] False"
    by (simp add: withPath_def exampleReplacement_def)
  note T = resolveLocalModule_version_failure_tolerated[OF cache mp isMod buf dec nov fail]
  from T wp have a: "resolveLocalModule ?w ''/proj'' exampleReplacement =
     Inr (Module ''/src/local'' False ''example.com/local'' None [] [] False,
          [FailedToResolveVersion ''example.com/local'' (External ''repository does not exist'')])"
    by simp
  have listing: "listModules ?w ''/proj'' =
      Inr [Module ''/proj'' True ''example.com/main'' None [] [] False,
           Module [] False ''example.com/lib'' (Some exampleReplacement) ''v1.0.0'' [] False]"
    by (simp add: listModules_def parseModules_def exampleWorld_def)
  have loop: "resolveLocalModules ?w ''/proj''
      [Module ''/proj'' True ''example.com/main'' None [] [] False,
       Module [] False ''example.com/lib'' (Some exampleReplacement) ''v1.0.0'' [] False] =
     Inr ([Module ''/proj'' True ''example.com/main'' None [] [] False,
           Module [] False ''example.com/lib''
             (Some (Module ''/src/local'' False ''example.com/local'' None [] [] False))
             ''v1.0.0'' [] False],
          [FailedToResolveVersion ''example.com/local'' (External ''repository does not exist'')])"
    using a gate by (simp add: withReplace_def)
  have graph: "GetModuleGraph ?w ''/proj'' = Inr [''example.com/main example.com/lib@v1.0.0'']"
    and root: "IsGoModule ?w ''/proj''"
    by (simp_all add: exampleWorld_def)
  have linked: "parseModuleGraph [''example.com/main example.com/lib@v1.0.0'']
      [Module ''/proj'' True ''example.com/main'' None [] [] False,
           Module [] False ''example.com/lib''
             (Some (Module ''/src/local'' False ''example.com/local'' None [] [] False))
             ''v1.0.0'' [] False] =
      Inr [Module ''/proj'' True ''example.com/main'' None [] [ReplaceOf 1] False,
           Module [] False ''example.com/lib''
             (Some (Module ''/src/local'' False ''example.com/local'' None [] [] False))
             ''v1.0.0'' [] False]"
    by (simp add: TrimSpace_def Fields_def isSpace_def Let_def findModule_def Coordinates_def
        appendDependency_def)
  have b: "GetModules ?w ''/proj'' =
     Inr ([Module ''/proj'' True ''example.com/main'' None [] [ReplaceOf 1] False,
           Module [] False ''example.com/lib''
             (Some (Module ''/src/local'' False ''example.com/local'' None [] [] False))
             ''v1.0.0'' [] False],
          [FailedToResolveVersion ''example.com/local'' (External ''repository does not exist'')])"
    unfolding GetModules_def by (simp only: root listing loop graph linked not_True_eq_False if_False sum.case prod.case)
  from a b show ?thesis by blast
qed

text \<open>
  Claim C10. \<open>Hash\<close> is the result of \<open>dirhash.HashDir\<close> on the module's directory
  with the module's coordinates as prefix, error or hash, and it does not read
  \<open>Vendored\<close>: a vendored module and the same module not vendored have the same result.
\<close>

theorem Hash_ignores_Vendored:
  "Hash world m = HashDir world (Dir m) (Coordinates m)
   \<and> Hash world (Module d mn p r v deps True) = Hash world (Module d mn p r v deps False)"
  by (simp add: Hash_def Coordinates_def split: sum.splits)

end
